theory Spec2Isabelle
  imports Complex_Main
begin

section \<open>Python strings\<close>

text \<open>
  A Python \<open>str\<close> is modelled as a \<open>string\<close>, each \<open>char\<close> read as a code point
  below 256. The characters below are the ones \<open>str.isspace\<close> accepts in that range;
  \<open>str.strip()\<close> and \<open>str.split()\<close> use the same set.
\<close>

definition whitespace :: "char list" where
  "whitespace = [CHR 0x09, CHR 0x0A, CHR 0x0B, CHR 0x0C, CHR 0x0D, CHR 0x1C, CHR 0x1D,
                 CHR 0x1E, CHR 0x1F, CHR 0x20, CHR 0x85, CHR 0xA0]"

definition is_space :: "char \<Rightarrow> bool" where
  "is_space c = (c \<in> set whitespace)"

text \<open>\<open>s.strip()\<close>\<close>

definition strip :: "string \<Rightarrow> string" where
  "strip s = rev (dropWhile is_space (rev (dropWhile is_space s)))"

text \<open>\<open>s.startswith(p)\<close>\<close>

fun startswith :: "string \<Rightarrow> string \<Rightarrow> bool" where
  "startswith s [] = True"
| "startswith [] (p # ps) = False"
| "startswith (c # cs) (p # ps) = (c = p \<and> startswith cs ps)"

text \<open>\<open>sub in s\<close>\<close>

fun contains :: "string \<Rightarrow> string \<Rightarrow> bool" where
  "contains [] sub = (sub = [])"
| "contains (c # cs) sub = (startswith (c # cs) sub \<or> contains cs sub)"

text \<open>\<open>s.split(sep)\<close> for a separator of one character: never empty.\<close>

fun split_on :: "char \<Rightarrow> string \<Rightarrow> string list" where
  "split_on sep [] = [[]]"
| "split_on sep (c # cs) =
     (if c = sep then [] # split_on sep cs
      else (case split_on sep cs of
              [] \<Rightarrow> [[c]]
            | x # xs \<Rightarrow> (c # x) # xs))"

text \<open>\<open>s.split()\<close>: the maximal runs of characters that are not whitespace.\<close>

fun split_ws :: "string \<Rightarrow> string list" where
  "split_ws [] = []"
| "split_ws (c # cs) =
     (if is_space c then split_ws cs
      else (case cs of
              [] \<Rightarrow> [[c]]
            | d # ds \<Rightarrow>
                if is_space d then [c] # split_ws cs
                else (case split_ws cs of
                        [] \<Rightarrow> [[c]]
                      | w # ws \<Rightarrow> (c # w) # ws)))"

text \<open>\<open>sep.join(xs)\<close>\<close>

fun join :: "string \<Rightarrow> string list \<Rightarrow> string" where
  "join sep [] = []"
| "join sep [x] = x"
| "join sep (x # y # ys) = x @ sep @ join sep (y # ys)"

text \<open>\<open>s.replace(a, b)\<close> for single characters.\<close>

definition replace_char :: "char \<Rightarrow> char \<Rightarrow> string \<Rightarrow> string" where
  "replace_char a b s = map (\<lambda>c. if c = a then b else c) s"

section \<open>Workflow type to analysis tools\<close>

text \<open>
  \<open>QuanticsMainWindow.workflow_analysis_map\<close> (gui/main_window.py): each workflow type
  maps to a list of (tool, description) pairs.
\<close>

definition workflow_analysis_map :: "(string \<times> (string \<times> string) list) list" where
  "workflow_analysis_map =
     [(''MCTDH'',
         [(''rdcheck etot'', ''Total energy check''),
          (''rdcheck spop'', ''Single particle population''),
          (''rdcheck natpop 0 0'', ''Natural potential analysis''),
          (''rdgpop'', ''Grid population analysis'')]),
      (''vMCG'',
         [(''rdcheck etot'', ''Total energy check''),
          (''rdcheck spop'', ''Single particle population'')]),
      (''DD-vMCG'',
         [(''rdcheck etot'', ''Total energy check''),
          (''rdcheck spop'', ''Single particle population''),
          (''ddtraj'', ''DD trajectory analysis'')])]"

text \<open>
  \<open>update_analysis_tools\<close> offers, for a workflow type in the map, the tools of its
  pairs in order, and nothing for any other workflow type.
\<close>

definition update_analysis_tools :: "string \<Rightarrow> string list" where
  "update_analysis_tools workflow_type =
     (case map_of workflow_analysis_map workflow_type of
        None \<Rightarrow> []
      | Some tools \<Rightarrow> map fst tools)"

text \<open>\<open>QuanticsWorkChain._get_analysis_tools\<close> (runners/aiida_integration.py).\<close>

definition analysis_map :: "(string \<times> string list) list" where
  "analysis_map =
     [(''MCTDH'', [''rdcheck etot'', ''rdcheck spop'', ''rdcheck natpop 0 0'', ''rdgpop'']),
      (''vMCG'', [''rdcheck etot'', ''rdcheck spop'']),
      (''DD-vMCG'', [''rdcheck etot'', ''rdcheck spop'', ''ddtraj''])]"

definition get_analysis_tools :: "string \<Rightarrow> string list" where
  "get_analysis_tools workflow_type =
     (case map_of analysis_map workflow_type of None \<Rightarrow> [] | Some tools \<Rightarrow> tools)"

section \<open>Parsing the executable's output\<close>

text \<open>
  \<open>QuanticsAiidaParser._parse_quantics_output\<close> (runners/aiida_integration.py). The
  result dict has at most the keys \<open>total_energy\<close>, \<open>final_time\<close> and \<open>converged\<close>; a
  key that is absent is \<open>None\<close> here. Python's \<open>float\<close> is the parameter \<open>pyfloat\<close>:
  \<open>None\<close> where \<open>float(s)\<close> raises ValueError.
\<close>

record 'f parsed =
  total_energy :: "'f option"
  final_time :: "'f option"
  converged :: "bool option"

definition no_results :: "'f parsed" where
  "no_results = \<lparr>total_energy = None, final_time = None, converged = None\<rparr>"

text \<open>
  \<open>float(line.split()[-1])\<close> inside \<open>try ... except (ValueError, IndexError): pass\<close>:
  \<open>None\<close> when the line has no token (IndexError) or the token does not parse.
\<close>

definition float_of_last :: "(string \<Rightarrow> 'f option) \<Rightarrow> string \<Rightarrow> 'f option" where
  "float_of_last pyfloat line =
     (case split_ws line of [] \<Rightarrow> None | w # ws \<Rightarrow> pyfloat (last (w # ws)))"

text \<open>The body of the loop over the lines.\<close>

definition parse_line :: "(string \<Rightarrow> 'f option) \<Rightarrow> 'f parsed \<Rightarrow> string \<Rightarrow> 'f parsed" where
  "parse_line pyfloat results line =
     (let r1 = (if contains line ''Total energy''
                then (case float_of_last pyfloat line of
                        None \<Rightarrow> results
                      | Some energy \<Rightarrow> results\<lparr>total_energy := Some energy\<rparr>)
                else results);
          r2 = (if contains line ''Final time''
                then (case float_of_last pyfloat line of
                        None \<Rightarrow> r1
                      | Some t \<Rightarrow> r1\<lparr>final_time := Some t\<rparr>)
                else r1)
      in if contains line ''Convergence'' \<and> contains line ''achieved''
         then r2\<lparr>converged := Some True\<rparr>
         else if contains line ''Convergence'' \<and> contains line ''failed''
         then r2\<lparr>converged := Some False\<rparr>
         else r2)"

definition parse_quantics_output :: "(string \<Rightarrow> 'f option) \<Rightarrow> string \<Rightarrow> 'f parsed" where
  "parse_quantics_output pyfloat stdout_content =
     foldl (parse_line pyfloat) no_results (split_on CHR 0x0A stdout_content)"

text \<open>
  The value \<open>float\<close> gives to a plain decimal literal (an optional sign, digits, an
  optional point and digits), as an exact rational. It covers no other syntax of
  \<open>float\<close> and is used only to run the parser on concrete texts.
\<close>

definition digit_val :: "char \<Rightarrow> nat option" where
  "digit_val =
     map_of [(CHR ''0'', 0), (CHR ''1'', 1), (CHR ''2'', 2), (CHR ''3'', 3), (CHR ''4'', 4),
             (CHR ''5'', 5), (CHR ''6'', 6), (CHR ''7'', 7), (CHR ''8'', 8), (CHR ''9'', 9)]"

fun digits_val :: "nat \<Rightarrow> string \<Rightarrow> nat option" where
  "digits_val acc [] = Some acc"
| "digits_val acc (c # cs) =
     (case digit_val c of None \<Rightarrow> None | Some d \<Rightarrow> digits_val (10 * acc + d) cs)"

definition unsigned_decimal :: "string \<Rightarrow> rat option" where
  "unsigned_decimal s =
     (let ip = takeWhile (\<lambda>c. c \<noteq> CHR ''.'') s;
          fp = drop 1 (dropWhile (\<lambda>c. c \<noteq> CHR ''.'') s)
      in if ip = [] \<and> fp = [] then None
         else (case (digits_val 0 ip, digits_val 0 fp) of
                 (Some i, Some f) \<Rightarrow> Some (of_nat i + of_nat f / 10 ^ length fp)
               | _ \<Rightarrow> None))"

definition plain_decimal :: "string \<Rightarrow> rat option" where
  "plain_decimal s =
     (case s of
        [] \<Rightarrow> None
      | c # cs \<Rightarrow>
          if c = CHR ''-'' then map_option uminus (unsigned_decimal cs)
          else if c = CHR ''+'' then unsigned_decimal cs
          else unsigned_decimal s)"

section \<open>Python values\<close>

text \<open>
  A \<open>pathlib.Path\<close> object is identified with the string \<open>str\<close> returns for it.
  Building a path from a string normalises it (slashes collapsed, \<open>.\<close> dropped); that
  function of the library is the parameter \<open>normpath\<close> of whatever builds paths.
\<close>

datatype path = Path string

fun str_of :: "path \<Rightarrow> string" where
  "str_of (Path s) = s"

text \<open>
  The values a configuration or a result dict holds. A dict is an association list in
  insertion order, with string keys. Floats and tuples are not in the model.
\<close>

datatype pyval =
    VNone
  | VBool bool
  | VInt int
  | VStr string
  | VPath path
  | VList "pyval list"
  | VDict "(string \<times> pyval) list"

type_synonym pydict = "(string \<times> pyval) list"

text \<open>Truth value of \<open>if value\<close>.\<close>

fun truthy :: "pyval \<Rightarrow> bool" where
  "truthy VNone = False"
| "truthy (VBool b) = b"
| "truthy (VInt i) = (i \<noteq> 0)"
| "truthy (VStr s) = (s \<noteq> [])"
| "truthy (VPath p) = True"
| "truthy (VList xs) = (xs \<noteq> [])"
| "truthy (VDict d) = (d \<noteq> [])"


section \<open>Configuration store (utils/config.py)\<close>







text \<open>
  The files of the store. The JSON text is not modelled: a file that \<open>json.dump\<close>
  wrote holds the value \<open>json.load\<close> reads back from it, which for the values of this
  model is the value written. \<open>Broken\<close> is a file that cannot be opened or parsed.
\<close>

datatype content = Json pyval | Broken

type_synonym files = "string \<Rightarrow> content option"



section \<open>Calculation records (runners/local_runner.py)\<close>

text \<open>
  A \<open>datetime\<close> is naive or aware. A naive one is the number of microseconds it denotes
  on the wall clock: neither its comparisons nor \<open>isoformat\<close> look at its \<open>fold\<close>
  attribute, so it has none here. An aware one has its wall-clock reading, its \<open>fold\<close>
  and its \<open>tzinfo\<close> object, which is a fixed offset in microseconds
  (\<open>timezone(timedelta(microseconds=k))\<close>) or a zone of the time-zone database
  (\<open>ZoneInfo(key)\<close>); equal \<open>tzinfo\<close> values stand for the same object.
\<close>

datatype tzinfo = FixedOffset int | ZoneInfo string

datatype datetime = Naive int | Aware int bool tzinfo

text \<open>
  The functions of \<open>pathlib\<close> and \<open>datetime\<close> the runner calls are parameters of the
  model: \<open>path_norm s\<close> is \<open>str(Path(s))\<close>, \<open>path_join a b\<close> is \<open>str(Path(a) / b)\<close>,
  \<open>dt_isoformat\<close> and \<open>dt_fromisoformat\<close> are \<open>datetime.isoformat\<close> and
  \<open>datetime.fromisoformat\<close> (\<open>None\<close> for ValueError), \<open>dt_strftime t\<close> is
  \<open>t.strftime("%Y%m%d_%H%M%S")\<close>, and \<open>zone_utcoffset key n f\<close> is the offset from UTC,
  in microseconds, that the zone \<open>key\<close> has at the wall-clock reading \<open>n\<close> with fold \<open>f\<close>.
\<close>

record pylib =
  path_norm :: "string \<Rightarrow> string"
  path_join :: "string \<Rightarrow> string \<Rightarrow> string"
  dt_isoformat :: "datetime \<Rightarrow> string"
  dt_fromisoformat :: "string \<Rightarrow> datetime option"
  dt_strftime :: "datetime \<Rightarrow> string"
  zone_utcoffset :: "string \<Rightarrow> int \<Rightarrow> bool \<Rightarrow> int"

text \<open>\<open>t.utcoffset()\<close>, \<open>None\<close> for a naive datetime.\<close>

fun utcoffset :: "pylib \<Rightarrow> datetime \<Rightarrow> int option" where
  "utcoffset L (Naive n) = None"
| "utcoffset L (Aware n f (FixedOffset k)) = Some k"
| "utcoffset L (Aware n f (ZoneInfo key)) = Some (zone_utcoffset L key n f)"

fun wall :: "datetime \<Rightarrow> int" where
  "wall (Naive n) = n"
| "wall (Aware n f z) = n"

fun tzinfo_of :: "datetime \<Rightarrow> tzinfo option" where
  "tzinfo_of (Naive n) = None"
| "tzinfo_of (Aware n f z) = Some z"

text \<open>\<open>t.replace(fold=not t.fold)\<close>\<close>

fun other_fold :: "datetime \<Rightarrow> datetime" where
  "other_fold (Naive n) = Naive n"
| "other_fold (Aware n f z) = Aware n (\<not> f) z"

text \<open>
  \<open>a == b\<close> on datetimes (\<open>datetime._cmp\<close> of the standard library, as \<open>__eq__\<close> calls
  it). With the same \<open>tzinfo\<close> object the wall-clock readings are compared. Otherwise a
  datetime whose offset depends on its fold is equal to nothing; with equal offsets
  (both \<open>None\<close> included) the wall-clock readings are compared, a naive and an aware
  datetime are unequal, and two aware ones are compared as instants.
\<close>

definition dt_eq :: "pylib \<Rightarrow> datetime \<Rightarrow> datetime \<Rightarrow> bool" where
  "dt_eq L a b =
     (if tzinfo_of a = tzinfo_of b then wall a = wall b
      else
        let myoff = utcoffset L a; otoff = utcoffset L b
        in if myoff \<noteq> utcoffset L (other_fold a) then False
           else if otoff \<noteq> utcoffset L (other_fold b) then False
           else if myoff = otoff then wall a = wall b
           else (case (myoff, otoff) of
                   (Some x, Some y) \<Rightarrow> wall a - x = wall b - y
                 | _ \<Rightarrow> False))"

text \<open>\<open>p / s\<close>\<close>

definition joinp :: "pylib \<Rightarrow> path \<Rightarrow> string \<Rightarrow> path" where
  "joinp L p s = Path (path_join L (str_of p) s)"

text \<open>\<open>class QuanticsCalculation\<close>\<close>

record calc =
  name :: string
  inp_file :: "path option"
  op_file :: "path option"
  db_folder :: "path option"
  workflow_type :: string
  working_directory :: "path option"
  status :: string
  start_time :: "datetime option"
  end_time :: "datetime option"
  results :: pydict

text \<open>\<open>QuanticsCalculation.__init__\<close>\<close>

definition new_calc :: "string \<Rightarrow> calc" where
  "new_calc nm =
     \<lparr>name = nm, inp_file = None, op_file = None, db_folder = None,
      workflow_type = ''MCTDH'', working_directory = None, status = ''created'',
      start_time = None, end_time = None, results = []\<rparr>"

text \<open>
  The dict \<open>to_dict\<close> builds always has the same ten keys; it is a record of their
  values here, \<open>None\<close> for Python's \<open>None\<close>.
\<close>

record calc_dict =
  d_name :: string
  d_inp_file :: "string option"
  d_op_file :: "string option"
  d_db_folder :: "string option"
  d_workflow_type :: string
  d_working_directory :: "string option"
  d_status :: string
  d_start_time :: "string option"
  d_end_time :: "string option"
  d_results :: pydict

text \<open>
  \<open>to_dict\<close>. \<open>str(x) if x else None\<close> on a field that is a path or \<open>None\<close>: a path
  object is always true. Likewise a datetime.
\<close>

definition to_dict :: "pylib \<Rightarrow> calc \<Rightarrow> calc_dict" where
  "to_dict L c =
     \<lparr>d_name = name c,
      d_inp_file = map_option str_of (inp_file c),
      d_op_file = map_option str_of (op_file c),
      d_db_folder = map_option str_of (db_folder c),
      d_workflow_type = workflow_type c,
      d_working_directory = map_option str_of (working_directory c),
      d_status = status c,
      d_start_time = map_option (dt_isoformat L) (start_time c),
      d_end_time = map_option (dt_isoformat L) (end_time c),
      d_results = results c\<rparr>"




text \<open>
  The library on the values the examples use: paths whose strings are already in normal
  form and join with a slash, and four datetimes, counted in microseconds from
  2024-01-01 00:00:00. Three are naive. The fourth is 2024-11-03 01:30:00 in the zone
  America/New_York with \<open>fold=1\<close>: the second time that day the clocks there show 01:30,
  five hours behind UTC, the first being four hours behind. \<open>isoformat\<close> prints it with
  its offset, and \<open>fromisoformat\<close> reads that text as a datetime with the fixed offset.
\<close>

definition example_times :: "(datetime \<times> string \<times> string) list" where
  "example_times =
     [(Naive 0, ''2024-01-01T00:00:00'', ''20240101_000000''),
      (Naive 1000000, ''2024-01-01T00:00:01'', ''20240101_000001''),
      (Naive 2500000, ''2024-01-01T00:00:02.500000'', ''20240101_000002''),
      (Aware 26530200000000 True (ZoneInfo ''America/New_York''),
       ''2024-11-03T01:30:00-05:00'', ''20241103_013000'')]"

definition example_parsed :: "(string \<times> datetime) list" where
  "example_parsed =
     [(''2024-01-01T00:00:00'', Naive 0),
      (''2024-01-01T00:00:01'', Naive 1000000),
      (''2024-01-01T00:00:02.500000'', Naive 2500000),
      (''2024-11-03T01:30:00-05:00'', Aware 26530200000000 False (FixedOffset (- 18000000000)))]"

definition example_lib :: pylib where
  "example_lib =
     \<lparr>path_norm = (\<lambda>s. s),
      path_join = (\<lambda>a b. a @ ''/'' @ b),
      dt_isoformat = (\<lambda>t. case map_of example_times t of None \<Rightarrow> [] | Some x \<Rightarrow> fst x),
      dt_fromisoformat = map_of example_parsed,
      dt_strftime = (\<lambda>t. case map_of example_times t of None \<Rightarrow> [] | Some x \<Rightarrow> snd x),
      zone_utcoffset = (\<lambda>key n f.
         if key = ''America/New_York'' \<and> n = 26530200000000
         then (if f then - 18000000000 else - 14400000000) else 0)\<rparr>"

section \<open>The local runner (runners/local_runner.py)\<close>

subsection \<open>Exceptions, the outside world and the runner's state\<close>

datatype exn = ValueError string | TypeError string | IndexError string | OSError string

text \<open>\<open>str(e)\<close>\<close>

fun exn_str :: "exn \<Rightarrow> string" where
  "exn_str (ValueError m) = m"
| "exn_str (TypeError m) = m"
| "exn_str (IndexError m) = m"
| "exn_str (OSError m) = m"

text \<open>\<open>subprocess.CompletedProcess\<close>\<close>

record completed_process =
  returncode :: int
  stdout :: string
  stderr :: string

text \<open>
  What the runner asks of the operating system, in the order it asks: lines printed,
  clock readings, path resolution, directory creation, \<open>shutil.copy2\<close> and
  \<open>shutil.copytree\<close>, existence tests, files read and written (the registry as the
  dict \<open>_save_calculations\<close> dumps), the log file opened for writing, and processes run
  with their command, working directory and standard input.
\<close>

datatype call =
    Print string
  | Now
  | Resolve string
  | Mkdir string
  | Copy2 string string
  | CopyTree string string
  | Exists string
  | ReadText string
  | WriteText string string
  | WriteJson string "(string \<times> calc_dict) list"
  | OpenLog string
  | Run "string list" string "string option"

text \<open>
  The environment answers each request, given the requests made so far: the clock
  reading in microseconds, the resolved path, the exception a request raises if any
  (an existence test included), whether a path exists, the text of a file (with
  \<open>\<newline>\<close> line ends) or the exception of reading it, and the completed process or the
  exception of starting it. Printing a line and reading the clock always succeed.
\<close>

record env =
  clock :: "call list \<Rightarrow> int"
  resolved :: "call list \<Rightarrow> string \<Rightarrow> string"
  raises :: "call list \<Rightarrow> call \<Rightarrow> exn option"
  path_exists :: "call list \<Rightarrow> string \<Rightarrow> bool"
  file_text :: "call list \<Rightarrow> string \<Rightarrow> exn + string"
  process :: "call list \<Rightarrow> string list \<Rightarrow> string \<Rightarrow> string option \<Rightarrow> exn + completed_process"

text \<open>
  The runner object, the calculation objects it and its callers share (by reference
  number), and the requests made so far.
\<close>

record state =
  base_directory :: path
  runs_directory :: path
  config_file :: path
  calculations :: "(string \<times> nat) list"
  objects :: "nat \<Rightarrow> calc"
  next_object :: nat
  trace :: "call list"

definition emit :: "call \<Rightarrow> state \<Rightarrow> state" where
  "emit c s = s\<lparr>trace := trace s @ [c]\<rparr>"

definition print :: "string \<Rightarrow> state \<Rightarrow> state" where
  "print msg s = emit (Print msg) s"

text \<open>\<open>datetime.now()\<close>: a naive datetime.\<close>

definition now :: "env \<Rightarrow> state \<Rightarrow> datetime \<times> state" where
  "now E s = (Naive (clock E (trace s)), emit Now s)"

definition attempt :: "env \<Rightarrow> call \<Rightarrow> state \<Rightarrow> exn option \<times> state" where
  "attempt E c s = (raises E (trace s) c, emit c s)"

text \<open>
  \<open>p.exists()\<close>: false for a path that is not there, and the OSError of any other
  failure of the underlying \<open>stat\<close>, a name that is too long for one.
\<close>

definition exists :: "env \<Rightarrow> path \<Rightarrow> state \<Rightarrow> (exn + bool) \<times> state" where
  "exists E p s =
     ((case raises E (trace s) (Exists (str_of p)) of
         Some e \<Rightarrow> Inl e
       | None \<Rightarrow> Inr (path_exists E (trace s) (str_of p))),
      emit (Exists (str_of p)) s)"

definition read_text :: "env \<Rightarrow> path \<Rightarrow> state \<Rightarrow> (exn + string) \<times> state" where
  "read_text E p s = (file_text E (trace s) (str_of p), emit (ReadText (str_of p)) s)"

definition run_process ::
  "env \<Rightarrow> string list \<Rightarrow> path \<Rightarrow> string option \<Rightarrow> state \<Rightarrow> (exn + completed_process) \<times> state" where
  "run_process E cmd cwd inp s =
     (process E (trace s) cmd (str_of cwd) inp, emit (Run cmd (str_of cwd) inp) s)"

text \<open>\<open>Path(p).resolve()\<close>\<close>

definition resolve :: "pylib \<Rightarrow> env \<Rightarrow> path \<Rightarrow> state \<Rightarrow> path \<times> state" where
  "resolve L E p s =
     (Path (path_norm L (resolved E (trace s) (str_of p))), emit (Resolve (str_of p)) s)"

text \<open>An assignment to a field of the calculation object \<open>r\<close>.\<close>

definition modify :: "nat \<Rightarrow> (calc \<Rightarrow> calc) \<Rightarrow> state \<Rightarrow> state" where
  "modify r f s = s\<lparr>objects := (objects s)(r := f (objects s r))\<rparr>"

text \<open>\<open>d[k] = v\<close> on a dict: the value is replaced in place or the entry appended.\<close>

fun dict_set :: "'k \<Rightarrow> 'v \<Rightarrow> ('k \<times> 'v) list \<Rightarrow> ('k \<times> 'v) list" where
  "dict_set k v [] = [(k, v)]"
| "dict_set k v (p # ps) = (if fst p = k then (k, v) # ps else p # dict_set k v ps)"

definition apos :: string where
  "apos = [CHR 0x27]"

text \<open>\<open>str(x)\<close> on a field that is a path or \<open>None\<close>.\<close>

definition str_opt :: "path option \<Rightarrow> string" where
  "str_opt x = (case x of None \<Rightarrow> ''None'' | Some p \<Rightarrow> str_of p)"

subsection \<open>Persisting the registry and creating a calculation\<close>

text \<open>\<open>_save_calculations\<close>\<close>

definition save_calculations :: "pylib \<Rightarrow> env \<Rightarrow> state \<Rightarrow> exn option \<times> state" where
  "save_calculations L E s =
     attempt E (WriteJson (str_of (config_file s))
                  (map (\<lambda>kv. (fst kv, to_dict L (objects s (snd kv)))) (calculations s))) s"

text \<open>
  \<open>create_calculation\<close>: the new object's reference, or the exception raised, and the
  state left behind.
\<close>

definition create_calculation ::
  "pylib \<Rightarrow> env \<Rightarrow> string \<Rightarrow> path \<Rightarrow> path \<Rightarrow> string \<Rightarrow> path option \<Rightarrow> state
   \<Rightarrow> (exn + nat) \<times> state" where
  "create_calculation L E nm inp op wt db s =
     (if map_of (calculations s) nm \<noteq> None
      then (Inl (ValueError (''Calculation name '' @ apos @ nm @ apos @ '' already exists'')), s)
      else
        let r = next_object s;
            s1 = s\<lparr>next_object := Suc r, objects := (objects s)(r := new_calc nm)\<rparr>;
            (p_inp, s2) = resolve L E inp s1;
            s3 = modify r (\<lambda>c. c\<lparr>inp_file := Some p_inp\<rparr>) s2;
            (p_op, s4) = resolve L E op s3;
            s5 = modify r (\<lambda>c. c\<lparr>op_file := Some p_op, workflow_type := wt\<rparr>) s4;
            s6 = (case db of
                    None \<Rightarrow> s5
                  | Some d \<Rightarrow>
                      if wt = ''DD-vMCG''
                      then (let (p_db, s') = resolve L E d s5
                            in modify r (\<lambda>c. c\<lparr>db_folder := Some p_db\<rparr>) s')
                      else s5);
            (t, s7) = now E s6;
            timestamp = dt_strftime L t;
            wd = joinp L (runs_directory s7) (nm @ ''_'' @ timestamp);
            s8 = modify r (\<lambda>c. c\<lparr>working_directory := Some wd\<rparr>) s7
        in case attempt E (Mkdir (str_of wd)) s8 of
             (Some e, s9) \<Rightarrow> (Inl e, s9)
           | (None, s9) \<Rightarrow>
               let s10 = s9\<lparr>calculations := dict_set nm r (calculations s9)\<rparr>
               in (case save_calculations L E s10 of
                     (Some e, s11) \<Rightarrow> (Inl e, s11)
                   | (None, s11) \<Rightarrow> (Inr r, s11)))"

subsection \<open>Reading directives of the input file\<close>

text \<open>
  The loop of \<open>_get_output_name_from_inp\<close> and \<open>_get_opname_from_inp\<close> over the lines
  of the file, for the directive \<open>key\<close>: \<open>None\<close> when the loop ends without returning,
  the returned value, or the IndexError of \<open>line.split("=")[1]\<close>.
\<close>

fun first_match :: "string \<Rightarrow> string list \<Rightarrow> (exn + string) option" where
  "first_match key [] = None"
| "first_match key (l # ls) =
     (let line = strip l
      in if startswith line key \<and> contains line ''=''
         then (case split_on CHR ''='' line of
                 a # b # rest \<Rightarrow> Some (Inr (strip b))
               | _ \<Rightarrow> Some (Inl (IndexError ''list index out of range'')))
         else first_match key ls)"

text \<open>
  The two readers differ in the directive and in the warning they print when the file
  cannot be read; both return \<open>None\<close> then and when no line matches.
\<close>

definition read_directive ::
  "env \<Rightarrow> string \<Rightarrow> string \<Rightarrow> path \<Rightarrow> state \<Rightarrow> string option \<times> state" where
  "read_directive E key warning inp_file_path s =
     (case read_text E inp_file_path s of
        (Inl e, s1) \<Rightarrow> (None, print (warning @ exn_str e) s1)
      | (Inr text, s1) \<Rightarrow>
          (case first_match key (split_on CHR 0x0A text) of
             None \<Rightarrow> (None, s1)
           | Some (Inr v) \<Rightarrow> (Some v, s1)
           | Some (Inl e) \<Rightarrow> (None, print (warning @ exn_str e) s1)))"

definition get_output_name_from_inp :: "env \<Rightarrow> path \<Rightarrow> state \<Rightarrow> string option \<times> state" where
  "get_output_name_from_inp E inp_file_path s =
     read_directive E ''name'' ''Warning: Cannot read name from inp file: '' inp_file_path s"

definition get_opname_from_inp :: "env \<Rightarrow> path \<Rightarrow> state \<Rightarrow> string option \<times> state" where
  "get_opname_from_inp E inp_file_path s =
     read_directive E ''opname'' ''Warning: Cannot read opname from inp file: '' inp_file_path s"

text \<open>\<open>x if x else fallback\<close> on the result of a reader.\<close>

definition or_else :: "string option \<Rightarrow> string \<Rightarrow> string" where
  "or_else x fallback = (case x of None \<Rightarrow> fallback | Some v \<Rightarrow> if v = [] then fallback else v)"

subsection \<open>Preparing and running a calculation\<close>

text \<open>
  The body of the \<open>try\<close> of \<open>prepare_calculation\<close>, up to the first exception. A
  field that is \<open>None\<close> where a path is needed raises TypeError before anything is
  asked of the operating system.
\<close>

definition prepare_body :: "pylib \<Rightarrow> env \<Rightarrow> calc \<Rightarrow> state \<Rightarrow> exn option \<times> state" where
  "prepare_body L E c s =
     (case (working_directory c, inp_file c) of
        (None, _) \<Rightarrow> (Some (TypeError ''unsupported operand type(s) for /''), s)
      | (Some wd, None) \<Rightarrow> (Some (TypeError ''expected str, bytes or os.PathLike object''), s)
      | (Some wd, Some inp) \<Rightarrow>
          (case attempt E (Copy2 (str_of inp) (str_of (joinp L wd ''input.inp''))) s of
             (Some e, s1) \<Rightarrow> (Some e, s1)
           | (None, s1) \<Rightarrow>
               let (opname, s2) = get_opname_from_inp E inp s1;
                   op_filename = (case opname of
                                    None \<Rightarrow> ''operator.op''
                                  | Some v \<Rightarrow> if v \<noteq> [] then v @ ''.op'' else ''operator.op'')
               in (case op_file c of
                     None \<Rightarrow> (Some (TypeError ''expected str, bytes or os.PathLike object''), s2)
                   | Some op \<Rightarrow>
                       (case attempt E (Copy2 (str_of op) (str_of (joinp L wd op_filename))) s2 of
                          (Some e, s3) \<Rightarrow> (Some e, s3)
                        | (None, s3) \<Rightarrow>
                            let done = (\<lambda>s'. print (''Operator file copied as: '' @ op_filename)
                                             (print (''Input files prepared for calculation ''
                                                     @ apos @ name c @ apos) s'))
                            in (case db_folder c of
                                  None \<Rightarrow> (None, done s3)
                                | Some db \<Rightarrow>
                                    if workflow_type c = ''DD-vMCG''
                                    then (case attempt E (CopyTree (str_of db)
                                                 (str_of (joinp L wd ''db_data''))) s3 of
                                            (Some e, s4) \<Rightarrow> (Some e, s4)
                                          | (None, s4) \<Rightarrow> (None, done s4))
                                    else (None, done s3))))))"

text \<open>\<open>prepare_calculation\<close>: every exception is caught and reported.\<close>

definition prepare_calculation :: "pylib \<Rightarrow> env \<Rightarrow> nat \<Rightarrow> state \<Rightarrow> bool \<times> state" where
  "prepare_calculation L E r s =
     (case prepare_body L E (objects s r) s of
        (None, s1) \<Rightarrow> (True, s1)
      | (Some e, s1) \<Rightarrow> (False, print (''Failed to prepare calculation: '' @ exn_str e) s1))"

text \<open>
  The loop of \<open>_check_output_files\<close> over the expected files, up to the first existence
  test that raises.
\<close>

fun find_files ::
  "pylib \<Rightarrow> env \<Rightarrow> path \<Rightarrow> string list \<Rightarrow> state \<Rightarrow> (exn + string list) \<times> state" where
  "find_files L E output_dir [] s = (Inr [], s)"
| "find_files L E output_dir (file_name # rest) s =
     (case exists E (joinp L output_dir file_name) s of
        (Inl e, s1) \<Rightarrow> (Inl e, s1)
      | (Inr ex, s1) \<Rightarrow>
          (case find_files L E output_dir rest s1 of
             (Inl e, s2) \<Rightarrow> (Inl e, s2)
           | (Inr found, s2) \<Rightarrow> (Inr (if ex then file_name # found else found), s2)))"

text \<open>
  \<open>_check_output_files\<close>, which catches nothing itself: the exception is the TypeError
  of a missing directory field or the exception of an existence test.
\<close>

definition check_output_files :: "pylib \<Rightarrow> env \<Rightarrow> nat \<Rightarrow> state \<Rightarrow> exn option \<times> state" where
  "check_output_files L E r s =
     (case working_directory (objects s r) of
        None \<Rightarrow> (Some (TypeError ''unsupported operand type(s) for /''), s)
      | Some wd \<Rightarrow>
          let (found_name, s1) = get_output_name_from_inp E (joinp L wd ''input.inp'') s;
              output_name = or_else found_name (name (objects s1 r));
              output_dir = joinp L wd output_name
          in (case exists E output_dir s1 of
                (Inl e, s2) \<Rightarrow> (Some e, s2)
              | (Inr False, s2) \<Rightarrow>
                  (None,
                   print (''Warning: Output directory not found '' @ str_of output_dir) s2)
              | (Inr True, s2) \<Rightarrow>
                  let s3 = modify r (\<lambda>c. c\<lparr>results :=
                               dict_set ''output_name'' (VStr output_name)
                                 (dict_set ''output_directory'' (VStr (str_of output_dir))
                                    (results c))\<rparr>) s2
                  in (case find_files L E output_dir
                             [''log'', ''output'', ''auto'', ''psi''] s3 of
                        (Inl e, s4) \<Rightarrow> (Some e, s4)
                      | (Inr found_files, s4) \<Rightarrow>
                          let s5 = modify r (\<lambda>c. c\<lparr>results :=
                                     dict_set ''output_files'' (VList (map VStr found_files))
                                       (results c)\<rparr>) s4
                          in (None,
                              print (''Found output files: '' @ join '', '' found_files)
                                s5))))"

text \<open>
  The body of the \<open>try\<close> of \<open>run_calculation\<close>, up to the first exception: the value
  returned, or the exception, and the state at that point.
\<close>

definition run_body :: "pylib \<Rightarrow> env \<Rightarrow> nat \<Rightarrow> string \<Rightarrow> state \<Rightarrow> (exn + bool) \<times> state" where
  "run_body L E r quantics_executable s =
     (let s1 = modify r (\<lambda>c. c\<lparr>status := ''running''\<rparr>) s;
          (t, s2) = now E s1;
          s3 = modify r (\<lambda>c. c\<lparr>start_time := Some t\<rparr>) s2
      in case save_calculations L E s3 of
           (Some e, s4) \<Rightarrow> (Inl e, s4)
         | (None, s4) \<Rightarrow>
             let cmd = [quantics_executable, ''-mnd'', ''input.inp''];
                 c = objects s4 r;
                 s5 = print (''Command: '' @ join '' '' cmd)
                        (print (''Working directory: '' @ str_opt (working_directory c))
                           (print (''Starting calculation '' @ apos @ name c @ apos @ ''...'') s4))
             in (case working_directory c of
                   None \<Rightarrow> (Inl (TypeError ''unsupported operand type(s) for /''), s5)
                 | Some wd \<Rightarrow>
                     (case attempt E (OpenLog (str_of (joinp L wd ''quantics.log''))) s5 of
                        (Some e, s6) \<Rightarrow> (Inl e, s6)
                      | (None, s6) \<Rightarrow>
                          (case run_process E cmd wd None s6 of
                             (Inl e, s7) \<Rightarrow> (Inl e, s7)
                           | (Inr proc, s7) \<Rightarrow>
                               let (t', s8) = now E s7;
                                   s9 = modify r (\<lambda>c. c\<lparr>end_time := Some t'\<rparr>) s8;
                                   (x, s10) =
                                     (if returncode proc = 0
                                      then check_output_files L E r
                                             (print (''Calculation '' @ apos @ name c @ apos
                                                     @ '' completed successfully'')
                                                (modify r (\<lambda>c. c\<lparr>status := ''completed''\<rparr>) s9))
                                      else (None,
                                            print (''See log file: ''
                                                   @ str_of (joinp L wd ''quantics.log''))
                                              (print (''Calculation '' @ apos @ name c @ apos
                                                      @ '' failed'')
                                                 (modify r (\<lambda>c. c\<lparr>status := ''failed''\<rparr>) s9))))
                               in (case x of
                                     Some e \<Rightarrow> (Inl e, s10)
                                   | None \<Rightarrow>
                                       (case save_calculations L E s10 of
                                          (Some e, s11) \<Rightarrow> (Inl e, s11)
                                        | (None, s11) \<Rightarrow>
                                            (Inr (status (objects s11 r) = ''completed''),
                                             s11)))))))"

text \<open>
  \<open>run_calculation\<close>. The handler marks the calculation failed, records the end time
  and persists; an exception of that last step is the only one that leaves the call.
\<close>

definition run_calculation ::
  "pylib \<Rightarrow> env \<Rightarrow> nat \<Rightarrow> string \<Rightarrow> state \<Rightarrow> (exn + bool) \<times> state" where
  "run_calculation L E r quantics_executable s =
     (if status (objects s r) = ''running''
      then (Inr False,
            print (''Calculation '' @ apos @ name (objects s r) @ apos @ '' is already running'') s)
      else case prepare_calculation L E r s of
             (False, s1) \<Rightarrow> (Inr False, s1)
           | (True, s1) \<Rightarrow>
               (case run_body L E r quantics_executable s1 of
                  (Inr b, s2) \<Rightarrow> (Inr b, s2)
                | (Inl e, s2) \<Rightarrow>
                    let s3 = modify r (\<lambda>c. c\<lparr>status := ''failed''\<rparr>) s2;
                        (t, s4) = now E s3;
                        s5 = modify r (\<lambda>c. c\<lparr>end_time := Some t\<rparr>) s4
                    in (case save_calculations L E s5 of
                          (Some e', s6) \<Rightarrow> (Inl e', s6)
                        | (None, s6) \<Rightarrow>
                            (Inr False,
                             print (''Error occurred while running calculation: '' @ exn_str e)
                               s6))))"

subsection \<open>Running analysis tools\<close>

text \<open>
  The command line the loop of \<open>run_analysis\<close> builds for a tool, \<open>None\<close> for a tool it
  does not know.
\<close>

definition tool_command :: "string \<Rightarrow> string list option" where
  "tool_command tool =
     (if startswith tool ''rdcheck'' then Some (split_ws tool)
      else if tool = ''rdgpop'' then Some [''rdgpop'', ''-w'']
      else if tool = ''ddtraj'' then Some [''ddtraj'']
      else None)"

text \<open>
  The body of the loop of \<open>run_analysis\<close> for one tool; every exception is caught and
  recorded under the tool's name.
\<close>

definition run_tool ::
  "pylib \<Rightarrow> env \<Rightarrow> path \<Rightarrow> string \<Rightarrow> (string \<times> string) list \<Rightarrow> state
   \<Rightarrow> (string \<times> string) list \<times> state" where
  "run_tool L E output_dir tool res s =
     (let s1 = print (''Running analysis tool: '' @ tool) s
      in case tool_command tool of
           None \<Rightarrow> (res, print (''Unknown analysis tool: '' @ tool) s1)
         | Some cmd \<Rightarrow>
           let input_text = (if tool = ''rdgpop'' then Some ''2\<newline>1\<newline>'' else None)
           in (case run_process E cmd output_dir input_text s1 of
                 (Inl e, s2) \<Rightarrow>
                   (dict_set tool (''Exception: '' @ exn_str e) res,
                    print (''Exception while running '' @ tool @ '': '' @ exn_str e) s2)
               | (Inr result, s2) \<Rightarrow>
                   if returncode result = 0
                   then
                     let res1 = dict_set tool (stdout result) res;
                         s3 = print (tool @ '' completed'') s2;
                         output_file = joinp L output_dir
                            (replace_char CHR '' '' CHR ''_'' tool @ ''_output.txt'')
                     in (case attempt E (WriteText (str_of output_file) (stdout result)) s3 of
                           (Some e, s4) \<Rightarrow>
                             (dict_set tool (''Exception: '' @ exn_str e) res1,
                              print (''Exception while running '' @ tool @ '': '' @ exn_str e) s4)
                         | (None, s4) \<Rightarrow> (res1, s4))
                   else (dict_set tool (''Error: '' @ stderr result) res,
                         print (tool @ '' failed: '' @ stderr result) s2)))"

fun run_tools ::
  "pylib \<Rightarrow> env \<Rightarrow> path \<Rightarrow> string list \<Rightarrow> (string \<times> string) list \<Rightarrow> state
   \<Rightarrow> (string \<times> string) list \<times> state" where
  "run_tools L E output_dir [] res s = (res, s)"
| "run_tools L E output_dir (tool # tools) res s =
     (let (res1, s1) = run_tool L E output_dir tool res s
      in run_tools L E output_dir tools res1 s1)"

text \<open>\<open>working_directory / output_name\<close>: the right operand must be a string or a path.\<close>

fun path_operand :: "pyval \<Rightarrow> string option" where
  "path_operand (VStr s) = Some s"
| "path_operand (VPath p) = Some (str_of p)"
| "path_operand v = None"

text \<open>
  The output directory \<open>run_analysis\<close> works in: the saved output name if there is one,
  else the name read from the copied input file, else the calculation's own name. The
  exception is the TypeError of the path arithmetic.
\<close>

definition output_dir_of :: "pylib \<Rightarrow> env \<Rightarrow> calc \<Rightarrow> state \<Rightarrow> (exn + path) \<times> state" where
  "output_dir_of L E c s =
     (case working_directory c of
        None \<Rightarrow> (Inl (TypeError ''unsupported operand type(s) for /''), s)
      | Some wd \<Rightarrow>
          let cached = (case map_of (results c) ''output_name'' of
                          None \<Rightarrow> None
                        | Some v \<Rightarrow> if truthy v then Some v else None);
              (output_name, s1) =
                (case cached of
                   Some v \<Rightarrow> (v, s)
                 | None \<Rightarrow>
                     let (found_name, s') =
                           get_output_name_from_inp E (joinp L wd ''input.inp'') s
                     in (VStr (or_else found_name (name c)), s'))
          in (case path_operand output_name of
                None \<Rightarrow> (Inl (TypeError ''unsupported operand type(s) for /''), s1)
              | Some output_name \<Rightarrow> (Inr (joinp L wd output_name), s1)))"

text \<open>
  \<open>run_analysis\<close>: the mapping from tool to output text, or the exception that leaves
  the call (the TypeError above, the exception of the existence test, or the exception
  of persisting).
\<close>

definition run_analysis ::
  "pylib \<Rightarrow> env \<Rightarrow> nat \<Rightarrow> string list \<Rightarrow> state \<Rightarrow> (exn + (string \<times> string) list) \<times> state" where
  "run_analysis L E r analysis_tools s =
     (let c = objects s r
      in if status c \<noteq> ''completed''
         then (Inr [],
               print (''Calculation '' @ apos @ name c @ apos
                      @ '' not completed, cannot run analysis'') s)
         else
           case output_dir_of L E c s of
             (Inl e, s1) \<Rightarrow> (Inl e, s1)
           | (Inr output_dir, s1) \<Rightarrow>
               (case exists E output_dir s1 of
                  (Inl e, s2) \<Rightarrow> (Inl e, s2)
                | (Inr False, s2) \<Rightarrow>
                    (Inr [],
                     print (''Output directory does not exist: '' @ str_of output_dir) s2)
                | (Inr True, s2) \<Rightarrow>
                    let (res, s3) = run_tools L E output_dir analysis_tools [] s2;
                        s4 = modify r (\<lambda>c. c\<lparr>results :=
                                dict_set ''analysis''
                                  (VDict (map (\<lambda>kv. (fst kv, VStr (snd kv))) res))
                                  (results c)\<rparr>) s3
                    in (case save_calculations L E s4 of
                          (Some e, s5) \<Rightarrow> (Inl e, s5)
                        | (None, s5) \<Rightarrow> (Inr res, s5))))"

subsection \<open>Example states and environments\<close>

text \<open>A registry with one calculation, created and not yet run.\<close>

definition example_calc :: calc where
  "example_calc =
     (new_calc ''run1'')
       \<lparr>inp_file := Some (Path ''/data/run1.inp''),
        op_file := Some (Path ''/data/run1.op''),
        working_directory := Some (Path ''/q/runs/run1_20240101_000000'')\<rparr>"

definition example_state :: state where
  "example_state =
     \<lparr>base_directory = Path ''/q'', runs_directory = Path ''/q/runs'',
      config_file = Path ''/q/calculations.json'', calculations = [(''run1'', 0)],
      objects = (\<lambda>r. example_calc), next_object = 1, trace = []\<rparr>"


text \<open>
  An environment given by its clock, the exceptions its requests raise, the texts of
  its files (a file without text cannot be read), the paths that exist and the outcome
  of every process. Paths resolve to themselves.
\<close>

definition simple_env ::
  "(call list \<Rightarrow> int) \<Rightarrow> (call list \<Rightarrow> call \<Rightarrow> exn option) \<Rightarrow> (string \<times> string) list
   \<Rightarrow> string list \<Rightarrow> (exn + completed_process) \<Rightarrow> env" where
  "simple_env clk faults texts present outcome =
     \<lparr>clock = clk, resolved = (\<lambda>w p. p), raises = faults,
      path_exists = (\<lambda>w p. p \<in> set present),
      file_text = (\<lambda>w p. case map_of texts p of
                            None \<Rightarrow> Inl (OSError ''No such file or directory'')
                          | Some t \<Rightarrow> Inr t),
      process = (\<lambda>w cmd cwd inp. outcome)\<rparr>"

text \<open>The input file of the examples, as given and as copied.\<close>

definition example_texts :: "(string \<times> string) list" where
  "example_texts =
     [(''/data/run1.inp'', ''name = bar\<newline>opname = foo''),
      (''/q/runs/run1_20240101_000000/input.inp'', ''name = bar\<newline>opname = foo'')]"

text \<open>A DD-vMCG calculation with a DB folder, and an environment in which copying a tree fails.\<close>

definition example_dd_state :: state where
  "example_dd_state =
     example_state\<lparr>objects := (\<lambda>r. example_calc
        \<lparr>workflow_type := ''DD-vMCG'', db_folder := Some (Path ''/data/db'')\<rparr>)\<rparr>"

fun copytree_fails :: "call list \<Rightarrow> call \<Rightarrow> exn option" where
  "copytree_fails w (CopyTree src dst) = Some (OSError ''No such file or directory'')"
| "copytree_fails w c = None"

text \<open>
  A clock that advances by one with every request, and a clock that is set back while
  the executable runs: it reads one hour before any process has run and zero after.
\<close>

definition ticking :: "call list \<Rightarrow> int" where
  "ticking w = int (length w)"

fun is_run :: "call \<Rightarrow> bool" where
  "is_run (Run cmd cwd inp) = True"
| "is_run c = False"


definition no_faults :: "call list \<Rightarrow> call \<Rightarrow> exn option" where
  "no_faults w c = None"

text \<open>Every \<open>shutil.copy2\<close> fails: the source files are missing.\<close>

fun copy_fails :: "call list \<Rightarrow> call \<Rightarrow> exn option" where
  "copy_fails w (Copy2 src dst) = Some (OSError ''No such file or directory'')"
| "copy_fails w c = None"

text \<open>Copying the operator file of the examples fails, and nothing else does.\<close>

fun op_copy_fails :: "call list \<Rightarrow> call \<Rightarrow> exn option" where
  "op_copy_fails w (Copy2 src dst) =
     (if src = ''/data/run1.op'' then Some (OSError ''Permission denied'') else None)"
| "op_copy_fails w c = None"

text \<open>Writing the registry fails the second time it is tried, and only then.\<close>

fun is_save :: "call \<Rightarrow> bool" where
  "is_save (WriteJson p d) = True"
| "is_save c = False"


text \<open>A process that exits with the given code and prints nothing.\<close>

definition exits :: "int \<Rightarrow> exn + completed_process" where
  "exits rc = Inr \<lparr>returncode = rc, stdout = [], stderr = []\<rparr>"

section \<open>Theorems\<close>

subsection \<open>The output parser\<close>

lemma total_energy_parse_line:
  "total_energy (parse_line pf r l) =
     (if contains l ''Total energy'' \<and> float_of_last pf l \<noteq> None
      then float_of_last pf l else total_energy r)"
  by (auto simp: parse_line_def Let_def split: option.splits)

lemma final_time_parse_line:
  "final_time (parse_line pf r l) =
     (if contains l ''Final time'' \<and> float_of_last pf l \<noteq> None
      then float_of_last pf l else final_time r)"
  by (auto simp: parse_line_def Let_def split: option.splits)

lemma converged_parse_line:
  "converged (parse_line pf r l) =
     (if contains l ''Convergence'' \<and> (contains l ''achieved'' \<or> contains l ''failed'')
      then Some (contains l ''achieved'') else converged r)"
  by (auto simp: parse_line_def Let_def split: option.splits)

lemma total_energy_foldl:
  "total_energy (foldl (parse_line pf) r ls) =
     (case filter (\<lambda>l. contains l ''Total energy'' \<and> float_of_last pf l \<noteq> None) ls of
        [] \<Rightarrow> total_energy r
      | h # hs \<Rightarrow> float_of_last pf (last (h # hs)))"
proof (induction ls arbitrary: r)
  case Nil
  show ?case by simp
next
  case (Cons l ls)
  show ?case
    by (auto simp: Cons.IH total_energy_parse_line split: list.splits)
qed

lemma final_time_foldl:
  "final_time (foldl (parse_line pf) r ls) =
     (case filter (\<lambda>l. contains l ''Final time'' \<and> float_of_last pf l \<noteq> None) ls of
        [] \<Rightarrow> final_time r
      | h # hs \<Rightarrow> float_of_last pf (last (h # hs)))"
proof (induction ls arbitrary: r)
  case Nil
  show ?case by simp
next
  case (Cons l ls)
  show ?case
    by (auto simp: Cons.IH final_time_parse_line split: list.splits)
qed

lemma converged_foldl:
  "converged (foldl (parse_line pf) r ls) =
     (case filter (\<lambda>l. contains l ''Convergence''
                        \<and> (contains l ''achieved'' \<or> contains l ''failed'')) ls of
        [] \<Rightarrow> converged r
      | h # hs \<Rightarrow> Some (contains (last (h # hs)) ''achieved''))"
proof (induction ls arbitrary: r)
  case Nil
  show ?case by simp
next
  case (Cons l ls)
  show ?case
    by (auto simp: Cons.IH converged_parse_line split: list.splits)
qed


text \<open>
  C7 as stated fails: the loop has no early exit, so a later line containing
  "Total energy" overwrites the value of an earlier one. Here the first such line
  carries 1.0 and the parser returns 2.0.
\<close>

theorem parse_first_line_counterexample:
  "float_of_last plain_decimal ''Total energy 1.0'' = Some 1
   \<and> total_energy (parse_quantics_output plain_decimal
        ''Total energy 1.0\<newline>Total energy 2.0'') = Some 2"
  by (simp add: parse_quantics_output_def parse_line_def float_of_last_def is_space_def
      whitespace_def no_results_def plain_decimal_def unsigned_decimal_def digit_val_def)

text \<open>
  C7, amended. Over the lines of the text (split at newlines), \<open>total_energy\<close> is read
  from the last line that contains "Total energy" and whose last whitespace-delimited
  token parses as a float, and is absent when there is no such line; \<open>final_time\<close>
  likewise for "Final time"; \<open>converged\<close> comes from the last line that contains
  "Convergence" together with "achieved" or "failed", true when that line contains
  "achieved" and false otherwise, and is absent when there is no such line. On the
  text of the specification's example the result is the float of -1.234, the float of
  100.0 and true.
\<close>

theorem parse_quantics_output_last_match:
  "total_energy (parse_quantics_output pyfloat text) =
     (case filter (\<lambda>l. contains l ''Total energy'' \<and> float_of_last pyfloat l \<noteq> None)
             (split_on CHR 0x0A text) of
        [] \<Rightarrow> None
      | h # hs \<Rightarrow> float_of_last pyfloat (last (h # hs)))
   \<and> final_time (parse_quantics_output pyfloat text) =
     (case filter (\<lambda>l. contains l ''Final time'' \<and> float_of_last pyfloat l \<noteq> None)
             (split_on CHR 0x0A text) of
        [] \<Rightarrow> None
      | h # hs \<Rightarrow> float_of_last pyfloat (last (h # hs)))
   \<and> converged (parse_quantics_output pyfloat text) =
     (case filter (\<lambda>l. contains l ''Convergence''
                        \<and> (contains l ''achieved'' \<or> contains l ''failed''))
             (split_on CHR 0x0A text) of
        [] \<Rightarrow> None
      | h # hs \<Rightarrow> Some (contains (last (h # hs)) ''achieved''))
   \<and> parse_quantics_output pyfloat
        ''Total energy -1.234\<newline>Final time 100.0\<newline>Convergence achieved\<newline>''
      = \<lparr>total_energy = pyfloat ''-1.234'', final_time = pyfloat ''100.0'',
         converged = Some True\<rparr>"
proof (intro conjI)
  show "parse_quantics_output pyfloat
        ''Total energy -1.234\<newline>Final time 100.0\<newline>Convergence achieved\<newline>''
      = \<lparr>total_energy = pyfloat ''-1.234'', final_time = pyfloat ''100.0'',
         converged = Some True\<rparr>"
    by (auto simp: parse_quantics_output_def parse_line_def float_of_last_def is_space_def
        whitespace_def no_results_def Let_def split: option.splits)
qed (simp_all add: parse_quantics_output_def total_energy_foldl final_time_foldl
      converged_foldl no_results_def split: list.splits)

text \<open>The amended statement at a concrete text, with plain decimal literals as floats.\<close>

theorem parse_quantics_output_last_match_witness:
  "parse_quantics_output plain_decimal
        ''Total energy -1.234\<newline>Final time 100.0\<newline>Convergence achieved\<newline>''
      = \<lparr>total_energy = Some (-1.234), final_time = Some 100, converged = Some True\<rparr>"
  using parse_quantics_output_last_match [of plain_decimal]
  by (simp add: plain_decimal_def unsigned_decimal_def digit_val_def)

subsection \<open>The two tool maps\<close>

text \<open>
  C8. For each of the three workflow types MCTDH, vMCG and DD-vMCG the tool list of the
  local path's map and the list of the adapter's \<open>_get_analysis_tools\<close> are the same
  ordered list, namely the one the specification tabulates.
\<close>

theorem workflow_tool_maps_agree:
  "update_analysis_tools ''MCTDH'' = get_analysis_tools ''MCTDH''
   \<and> get_analysis_tools ''MCTDH''
       = [''rdcheck etot'', ''rdcheck spop'', ''rdcheck natpop 0 0'', ''rdgpop'']
   \<and> update_analysis_tools ''vMCG'' = get_analysis_tools ''vMCG''
   \<and> get_analysis_tools ''vMCG'' = [''rdcheck etot'', ''rdcheck spop'']
   \<and> update_analysis_tools ''DD-vMCG'' = get_analysis_tools ''DD-vMCG''
   \<and> get_analysis_tools ''DD-vMCG'' = [''rdcheck etot'', ''rdcheck spop'', ''ddtraj'']"
  by (simp add: update_analysis_tools_def get_analysis_tools_def
      workflow_analysis_map_def analysis_map_def)

subsection \<open>The configuration round trip\<close>







subsection \<open>The record round trip\<close>

lemma dt_eq_naive: "dt_eq L (Naive a) (Naive b) = (a = b)"
  by (simp add: dt_eq_def)





subsection \<open>What the steps of a run leave unchanged\<close>

lemma read_directive_frame:
  "read_directive E key warning p s = (x, s1) \<Longrightarrow>
     objects s1 = objects s \<and> calculations s1 = calculations s \<and> config_file s1 = config_file s
     \<and> (\<exists>zs. trace s1 = trace s @ zs \<and> (\<forall>c \<in> set zs. \<not> is_save c \<and> \<not> is_run c))"
  by (auto simp: read_directive_def read_text_def print_def emit_def
      split: prod.splits sum.splits option.splits)

lemma prepare_body_frame:
  "prepare_body L E c s = (x, s1) \<Longrightarrow>
     objects s1 = objects s \<and> calculations s1 = calculations s \<and> config_file s1 = config_file s
     \<and> (\<exists>zs. trace s1 = trace s @ zs \<and> (\<forall>c \<in> set zs. \<not> is_save c \<and> \<not> is_run c))
     \<and> (x = None \<longrightarrow> working_directory c \<noteq> None)"
  unfolding prepare_body_def get_opname_from_inp_def
  by (auto simp: attempt_def print_def emit_def Let_def
      split: prod.splits sum.splits option.splits if_splits
      dest!: read_directive_frame)

lemma prepare_calculation_frame:
  "prepare_calculation L E r s = (b, s1) \<Longrightarrow>
     objects s1 = objects s \<and> calculations s1 = calculations s \<and> config_file s1 = config_file s
     \<and> (\<exists>zs. trace s1 = trace s @ zs \<and> (\<forall>c \<in> set zs. \<not> is_save c \<and> \<not> is_run c))
     \<and> (b \<longrightarrow> working_directory (objects s r) \<noteq> None)"
  unfolding prepare_calculation_def
  by (auto simp: print_def emit_def split: prod.splits option.splits
      dest!: prepare_body_frame)










subsection \<open>The body of a run\<close>




lemma run_body_spawn_fails:
  assumes "working_directory (objects s r) = Some wd"
      and "\<forall>w p d. raises E w (WriteJson p d) = None"
      and "\<forall>w p. raises E w (OpenLog p) = None"
      and "\<forall>w. process E w [exe, ''-mnd'', ''input.inp''] (str_of wd) None = Inl e"
  shows "\<exists>s'. run_body L E r exe s = (Inl e, s')"
  using assms unfolding run_body_def Let_def
  by (auto simp: now_def modify_def save_calculations_def attempt_def emit_def print_def
        run_process_def
      split: prod.splits option.splits)

subsection \<open>A run as a whole\<close>

lemma run_calculation_not_prepared:
  assumes "status (objects s r) \<noteq> ''running''"
      and "prepare_calculation L E r s = (False, s1)"
  shows "run_calculation L E r exe s = (Inr False, s1) \<and> objects s1 = objects s"
  using assms prepare_calculation_frame [OF assms(2)]
  by (simp add: run_calculation_def)

lemma run_calculation_handler:
  assumes "status (objects s r) \<noteq> ''running''"
      and "prepare_calculation L E r s = (True, s1)"
      and "run_body L E r exe s1 = (Inl e, s2)"
      and "\<forall>p d. raises E (trace s2 @ [Now]) (WriteJson p d) = None"
  shows "\<exists>s'. run_calculation L E r exe s = (Inr False, s')
          \<and> status (objects s' r) = ''failed''
          \<and> end_time (objects s' r) = Some (Naive (clock E (trace s2)))"
  using assms
  by (auto simp: run_calculation_def now_def modify_def save_calculations_def attempt_def
      emit_def print_def Let_def)



subsection \<open>When preparation succeeds and when it fails\<close>

lemma prepare_succeeds:
  assumes "working_directory (objects s r) \<noteq> None"
      and "inp_file (objects s r) \<noteq> None"
      and "op_file (objects s r) \<noteq> None"
      and "\<forall>w a b. raises E w (Copy2 a b) = None"
      and "\<forall>w a b. raises E w (CopyTree a b) = None"
  shows "fst (prepare_calculation L E r s) = True"
  using assms unfolding prepare_calculation_def prepare_body_def Let_def
  by (auto simp: attempt_def split: prod.splits option.splits)

lemma prepare_fails:
  assumes "working_directory (objects s r) = Some wd"
      and "inp_file (objects s r) = Some inp"
      and "raises E (trace s) (Copy2 (str_of inp) (str_of (joinp L wd ''input.inp''))) = Some e"
  shows "fst (prepare_calculation L E r s) = False"
  using assms unfolding prepare_calculation_def prepare_body_def Let_def
  by (auto simp: attempt_def split: prod.splits option.splits)


lemma prepare_fails_op:
  assumes "working_directory (objects s r) = Some wd"
      and "inp_file (objects s r) = Some inp"
      and "op_file (objects s r) = Some op"
      and "raises E (trace s) (Copy2 (str_of inp) (str_of (joinp L wd ''input.inp''))) = None"
      and "\<forall>w dst. w \<noteq> trace s \<longrightarrow> raises E w (Copy2 (str_of op) dst) = Some e"
  shows "fst (prepare_calculation L E r s) = False"
  using assms
  unfolding prepare_calculation_def prepare_body_def get_opname_from_inp_def read_directive_def
    Let_def
  by (auto simp: attempt_def read_text_def print_def emit_def
      split: prod.splits option.splits sum.splits)

lemma prepare_fails_db:
  assumes "working_directory (objects s r) = Some wd"
      and "workflow_type (objects s r) = ''DD-vMCG''"
      and "db_folder (objects s r) = Some db"
      and "\<forall>w. raises E w (CopyTree (str_of db) (str_of (joinp L wd ''db_data''))) = Some e"
  shows "fst (prepare_calculation L E r s) = False"
  using assms unfolding prepare_calculation_def prepare_body_def Let_def
  by (auto simp: attempt_def split: prod.splits option.splits)

lemma example_prepared:
  assumes "\<forall>w a b. faults w (Copy2 a b) = None"
  shows "\<exists>s1. prepare_calculation example_lib (simple_env clk faults texts present outcome) 0
            example_state = (True, s1)"
proof -
  have "fst (prepare_calculation example_lib (simple_env clk faults texts present outcome) 0
            example_state) = True"
    using assms
    unfolding prepare_calculation_def prepare_body_def Let_def
    by (auto simp: attempt_def example_state_def example_calc_def new_calc_def simple_env_def
        split: prod.splits option.splits)
  then show ?thesis by (metis prod.collapse)
qed

subsection \<open>Exit code and status\<close>





subsection \<open>Environment errors\<close>

text \<open>
  C6 as stated fails: when copying the input file fails, \<open>run_calculation\<close> returns
  false and the calculation keeps the status it had, here \<open>created\<close>.
\<close>

theorem environment_errors_counterexample:
  "fst (run_calculation example_lib
          (simple_env ticking copy_fails example_texts [] (exits 0))
          0 ''quantics'' example_state) = Inr False
   \<and> status (objects (snd (run_calculation example_lib
          (simple_env ticking copy_fails example_texts [] (exits 0))
          0 ''quantics'' example_state)) 0) = ''created''"
proof -
  let ?E = "simple_env ticking copy_fails example_texts [] (exits 0)"
  have st: "status (objects example_state 0) \<noteq> ''running''"
    by (simp add: example_state_def example_calc_def new_calc_def)
  have "fst (prepare_calculation example_lib ?E 0 example_state) = False"
    by (rule prepare_fails [where wd = "Path ''/q/runs/run1_20240101_000000''"
          and inp = "Path ''/data/run1.inp''" and e = "OSError ''No such file or directory''"])
       (simp_all add: example_state_def example_calc_def new_calc_def simple_env_def)
  then obtain s1 where "prepare_calculation example_lib ?E 0 example_state = (False, s1)"
    by (metis prod.collapse)
  from run_calculation_not_prepared [OF st this, of "''quantics''"]
  show ?thesis
    by (simp add: example_state_def example_calc_def new_calc_def)
qed

text \<open>
  C6, amended. For a calculation that is not running: a failure to copy the input
  file, a failure to copy the operator file, and a failure to copy the DB folder of a
  DD-vMCG calculation are each caught, \<open>prepare_calculation\<close> returns false, the call
  returns false and the calculation is left as it was (its status is not changed); a
  failure to start the executable after a successful preparation is caught, the call
  returns false and the calculation is marked \<open>failed\<close>, provided the registry can be
  persisted and the log file opened.
\<close>

theorem environment_errors_caught:
  assumes "status (objects s r) \<noteq> ''running''"
      and "working_directory (objects s r) = Some wd"
  shows "(inp_file (objects s r) = Some inp
          \<and> raises E (trace s) (Copy2 (str_of inp) (str_of (joinp L wd ''input.inp''))) = Some e
          \<longrightarrow> fst (prepare_calculation L E r s) = False
              \<and> fst (run_calculation L E r exe s) = Inr False
              \<and> objects (snd (run_calculation L E r exe s)) = objects s)
       \<and> (inp_file (objects s r) = Some inp \<and> op_file (objects s r) = Some op
          \<and> raises E (trace s) (Copy2 (str_of inp) (str_of (joinp L wd ''input.inp''))) = None
          \<and> (\<forall>w dst. w \<noteq> trace s \<longrightarrow> raises E w (Copy2 (str_of op) dst) = Some e)
          \<longrightarrow> fst (prepare_calculation L E r s) = False
              \<and> fst (run_calculation L E r exe s) = Inr False
              \<and> objects (snd (run_calculation L E r exe s)) = objects s)
       \<and> (workflow_type (objects s r) = ''DD-vMCG'' \<and> db_folder (objects s r) = Some db
          \<and> (\<forall>w. raises E w (CopyTree (str_of db) (str_of (joinp L wd ''db_data''))) = Some e)
          \<longrightarrow> fst (prepare_calculation L E r s) = False
              \<and> fst (run_calculation L E r exe s) = Inr False
              \<and> objects (snd (run_calculation L E r exe s)) = objects s)
       \<and> (fst (prepare_calculation L E r s) = True
          \<and> (\<forall>w p d. raises E w (WriteJson p d) = None)
          \<and> (\<forall>w p. raises E w (OpenLog p) = None)
          \<and> (\<forall>w. process E w [exe, ''-mnd'', ''input.inp''] (str_of wd) None = Inl e)
          \<longrightarrow> fst (run_calculation L E r exe s) = Inr False
              \<and> status (objects (snd (run_calculation L E r exe s)) r) = ''failed'')"
proof -
  have np: "fst (prepare_calculation L E r s) = False
            \<and> fst (run_calculation L E r exe s) = Inr False
            \<and> objects (snd (run_calculation L E r exe s)) = objects s"
    if "fst (prepare_calculation L E r s) = False"
  proof -
    from that obtain s1 where "prepare_calculation L E r s = (False, s1)"
      by (metis prod.collapse)
    from run_calculation_not_prepared [OF assms(1) this, of exe] that show ?thesis by simp
  qed
  have c1: "fst (prepare_calculation L E r s) = False
            \<and> fst (run_calculation L E r exe s) = Inr False
            \<and> objects (snd (run_calculation L E r exe s)) = objects s"
    if "inp_file (objects s r) = Some inp
          \<and> raises E (trace s) (Copy2 (str_of inp) (str_of (joinp L wd ''input.inp''))) = Some e"
    using that prepare_fails [OF assms(2)] np by blast
  have c2: "fst (prepare_calculation L E r s) = False
            \<and> fst (run_calculation L E r exe s) = Inr False
            \<and> objects (snd (run_calculation L E r exe s)) = objects s"
    if "inp_file (objects s r) = Some inp \<and> op_file (objects s r) = Some op
          \<and> raises E (trace s) (Copy2 (str_of inp) (str_of (joinp L wd ''input.inp''))) = None
          \<and> (\<forall>w dst. w \<noteq> trace s \<longrightarrow> raises E w (Copy2 (str_of op) dst) = Some e)"
    using that prepare_fails_op [OF assms(2)] np by blast
  have c3: "fst (prepare_calculation L E r s) = False
            \<and> fst (run_calculation L E r exe s) = Inr False
            \<and> objects (snd (run_calculation L E r exe s)) = objects s"
    if "workflow_type (objects s r) = ''DD-vMCG'' \<and> db_folder (objects s r) = Some db
          \<and> (\<forall>w. raises E w (CopyTree (str_of db) (str_of (joinp L wd ''db_data''))) = Some e)"
    using that prepare_fails_db [OF assms(2)] np by blast
  have c4: "fst (run_calculation L E r exe s) = Inr False
            \<and> status (objects (snd (run_calculation L E r exe s)) r) = ''failed''"
    if a: "fst (prepare_calculation L E r s) = True
          \<and> (\<forall>w p d. raises E w (WriteJson p d) = None)
          \<and> (\<forall>w p. raises E w (OpenLog p) = None)
          \<and> (\<forall>w. process E w [exe, ''-mnd'', ''input.inp''] (str_of wd) None = Inl e)"
  proof -
    from a obtain s1 where p: "prepare_calculation L E r s = (True, s1)"
      by (metis prod.collapse)
    have "working_directory (objects s1 r) = Some wd"
      using prepare_calculation_frame [OF p] assms(2) by simp
    from run_body_spawn_fails [OF this, of E exe e L] a
    obtain s2 where b: "run_body L E r exe s1 = (Inl e, s2)" by blast
    from run_calculation_handler [OF assms(1) p b] a
    obtain s' where "run_calculation L E r exe s = (Inr False, s')"
      and "status (objects s' r) = ''failed''" by blast
    then show ?thesis by simp
  qed
  from c1 c2 c3 c4 show ?thesis by blast
qed


theorem environment_errors_caught_witness:
  "(fst (prepare_calculation example_lib
          (simple_env ticking copy_fails example_texts [] (exits 0)) 0 example_state) = False
    \<and> fst (run_calculation example_lib
          (simple_env ticking copy_fails example_texts [] (exits 0))
          0 ''quantics'' example_state) = Inr False
    \<and> objects (snd (run_calculation example_lib
          (simple_env ticking copy_fails example_texts [] (exits 0))
          0 ''quantics'' example_state)) = objects example_state)
   \<and> (fst (prepare_calculation example_lib
          (simple_env ticking op_copy_fails example_texts [] (exits 0)) 0 example_state) = False
    \<and> fst (run_calculation example_lib
          (simple_env ticking op_copy_fails example_texts [] (exits 0))
          0 ''quantics'' example_state) = Inr False
    \<and> objects (snd (run_calculation example_lib
          (simple_env ticking op_copy_fails example_texts [] (exits 0))
          0 ''quantics'' example_state)) = objects example_state)
   \<and> (fst (prepare_calculation example_lib
          (simple_env ticking copytree_fails example_texts [] (exits 0)) 0 example_dd_state)
        = False
    \<and> fst (run_calculation example_lib
          (simple_env ticking copytree_fails example_texts [] (exits 0))
          0 ''quantics'' example_dd_state) = Inr False
    \<and> objects (snd (run_calculation example_lib
          (simple_env ticking copytree_fails example_texts [] (exits 0))
          0 ''quantics'' example_dd_state)) = objects example_dd_state)
   \<and> (fst (run_calculation example_lib
          (simple_env ticking no_faults example_texts []
             (Inl (OSError ''No such file or directory: quantics'')))
          0 ''quantics'' example_state) = Inr False
    \<and> status (objects (snd (run_calculation example_lib
          (simple_env ticking no_faults example_texts []
             (Inl (OSError ''No such file or directory: quantics'')))
          0 ''quantics'' example_state)) 0) = ''failed'')"
proof -
  let ?wd = "Path ''/q/runs/run1_20240101_000000''"
  let ?e = "OSError ''No such file or directory''"
  let ?d = "OSError ''Permission denied''"
  let ?x = "OSError ''No such file or directory: quantics''"
  have st: "status (objects example_state 0) \<noteq> ''running''"
    and wd: "working_directory (objects example_state 0) = Some ?wd"
    and st': "status (objects example_dd_state 0) \<noteq> ''running''"
    and wd': "working_directory (objects example_dd_state 0) = Some ?wd"
    by (simp_all add: example_dd_state_def example_state_def example_calc_def new_calc_def)
  have a: "inp_file (objects example_state 0) = Some (Path ''/data/run1.inp'')
      \<and> raises (simple_env ticking copy_fails example_texts [] (exits 0)) (trace example_state)
          (Copy2 (str_of (Path ''/data/run1.inp'')) (str_of (joinp example_lib ?wd ''input.inp'')))
        = Some ?e"
    by (simp add: example_state_def example_calc_def new_calc_def simple_env_def)
  have o: "inp_file (objects example_state 0) = Some (Path ''/data/run1.inp'')
      \<and> op_file (objects example_state 0) = Some (Path ''/data/run1.op'')
      \<and> raises (simple_env ticking op_copy_fails example_texts [] (exits 0))
          (trace example_state)
          (Copy2 (str_of (Path ''/data/run1.inp'')) (str_of (joinp example_lib ?wd ''input.inp'')))
        = None
      \<and> (\<forall>w dst. w \<noteq> trace example_state \<longrightarrow>
            raises (simple_env ticking op_copy_fails example_texts [] (exits 0)) w
              (Copy2 (str_of (Path ''/data/run1.op'')) dst) = Some ?d)"
    by (simp add: example_state_def example_calc_def new_calc_def simple_env_def)
  have b: "workflow_type (objects example_dd_state 0) = ''DD-vMCG''
      \<and> db_folder (objects example_dd_state 0) = Some (Path ''/data/db'')
      \<and> (\<forall>w. raises (simple_env ticking copytree_fails example_texts [] (exits 0)) w
            (CopyTree (str_of (Path ''/data/db'')) (str_of (joinp example_lib ?wd ''db_data'')))
          = Some ?e)"
    by (simp add: example_dd_state_def example_state_def example_calc_def new_calc_def
        simple_env_def)
  obtain s1 where "prepare_calculation example_lib
      (simple_env ticking no_faults example_texts [] (Inl ?x)) 0 example_state = (True, s1)"
    using example_prepared [where faults = no_faults and clk = ticking
        and texts = example_texts and present = "[]" and outcome = "Inl ?x"]
    by (auto simp: no_faults_def)
  then have c: "fst (prepare_calculation example_lib
        (simple_env ticking no_faults example_texts [] (Inl ?x)) 0 example_state) = True
      \<and> (\<forall>w p d. raises (simple_env ticking no_faults example_texts [] (Inl ?x)) w
            (WriteJson p d) = None)
      \<and> (\<forall>w p. raises (simple_env ticking no_faults example_texts [] (Inl ?x)) w
            (OpenLog p) = None)
      \<and> (\<forall>w. process (simple_env ticking no_faults example_texts [] (Inl ?x)) w
            [''quantics'', ''-mnd'', ''input.inp''] (str_of ?wd) None = Inl ?x)"
    by (simp add: simple_env_def no_faults_def)
  from environment_errors_caught [OF st wd, THEN conjunct1, THEN mp, OF a]
       environment_errors_caught [OF st wd, THEN conjunct2, THEN conjunct1, THEN mp, OF o]
       environment_errors_caught [OF st' wd', THEN conjunct2, THEN conjunct2, THEN conjunct1,
         THEN mp, OF b]
       environment_errors_caught [OF st wd, THEN conjunct2, THEN conjunct2, THEN conjunct2,
         THEN mp, OF c]
  show ?thesis by simp
qed

subsection \<open>Duplicate names\<close>

text \<open>
  C2. If \<open>create_calculation\<close> is called with a name that is already a key of the
  registry, it raises ValueError with the duplicate-name message and leaves the whole
  state as it was: the registry, every calculation object, and no request of the
  operating system is made (no directory is created, nothing is written).
\<close>

theorem create_calculation_duplicate:
  assumes "nm \<in> fst ` set (calculations s)"
  shows "create_calculation L E nm inp op wt db s =
           (Inl (ValueError (''Calculation name '' @ apos @ nm @ apos @ '' already exists'')), s)"
proof -
  from assms have "map_of (calculations s) nm \<noteq> None"
    by (simp add: map_of_eq_None_iff)
  then show ?thesis
    by (simp add: create_calculation_def)
qed

theorem create_calculation_duplicate_witness:
  "create_calculation example_lib (simple_env ticking no_faults example_texts [] (exits 0))
     ''run1'' (Path ''/data/other.inp'') (Path ''/data/other.op'') ''vMCG'' None example_state
   = (Inl (ValueError ''Calculation name 'run1' already exists''), example_state)"
  using create_calculation_duplicate [of "''run1''" example_state example_lib
      "simple_env ticking no_faults example_texts [] (exits 0)"
      "Path ''/data/other.inp''" "Path ''/data/other.op''" "''vMCG''" None]
  by (simp add: example_state_def apos_def)


subsection \<open>Lines that carry a directive\<close>










subsection \<open>The name of the operator file\<close>








subsection \<open>The output directory\<close>










end
